theory Spec2Isabelle
  imports Main "HOL-Library.Word"
begin

unbundle bit_operations_syntax

section \<open>WS2812b: a line of RGB LEDs driven from one pin of port B\<close>

text \<open>
  A shallow embedding of the class \<open>WS2812b<PIN, LEN, ORDER>\<close> of \<open>lib-ws2812b.h\<close>.
  The class is written for an AVR core at 16 MHz (\<open>PORTB\<close>, \<open>cli\<close>, \<open>sei\<close>,
  cycle-counted \<open>nop\<close>s): \<open>byte\<close> is 8 bits, \<open>int\<close> and \<open>unsigned\<close> are 16 bits,
  \<open>uint32_t\<close> is 32 bits. Arithmetic is modelled on words of these widths, so every
  truncation and wrap-around of the source is the one of the word type. Two \<open>int\<close>
  expressions of \<open>setHSV\<close> leave the range of a signed 16-bit \<open>int\<close> (\<open>255 << 8\<close> and
  the products of two bytes); each is converted to an unsigned 16-bit value at once, and
  the model takes that value, the low 16 bits, as the compiler for this target does.
  The three template parameters are passed as the first arguments of each operation.
\<close>

type_synonym byte = "8 word"

subsection \<open>Pixel buffer\<close>

record rgb_t =
  r :: byte
  g :: byte
  b :: byte

text \<open>\<open>enum order_t { RGB = 0, GRB = 1 }\<close>, compared with the \<open>byte\<close> parameter \<open>ORDER\<close>.\<close>

definition RGB :: byte where
  "RGB = 0"

definition GRB :: byte where
  "GRB = 1"

text \<open>
  The member \<open>rgb_t data[LEN]\<close> is a list of \<open>LEN\<close> triplets. The guard \<open>pos < LEN\<close>
  is the source's; the list is only updated behind it.
\<close>

definition setRGB :: "byte \<Rightarrow> byte \<Rightarrow> rgb_t \<Rightarrow> rgb_t list \<Rightarrow> rgb_t list" where
  "setRGB LEN pos rgb data = (if pos < LEN then data[unat pos := rgb] else data)"

text \<open>The overload \<open>setRGB(pos, r, g, b)\<close>.\<close>

definition setRGB4 :: "byte \<Rightarrow> byte \<Rightarrow> byte \<Rightarrow> byte \<Rightarrow> byte \<Rightarrow> rgb_t list \<Rightarrow> rgb_t list" where
  "setRGB4 LEN pos rv gv bv data = setRGB LEN pos \<lparr>r = rv, g = gv, b = bv\<rparr> data"

subsection \<open>HSV to RGB\<close>

text \<open>
  \<open>const uint8_t sextant = (((h % (6*256)) >> 8) > 5) ? 5 : (h % (6*256)) >> 8;\<close>
  with \<open>h\<close> an \<open>unsigned\<close>.
\<close>

definition sextant :: "16 word \<Rightarrow> byte" where
  "sextant h = (if drop_bit 8 (h mod (6 * 256)) > 5 then 5 else ucast (drop_bit 8 (h mod (6 * 256))))"

text \<open>
  The bottom level \<open>c\<close>: \<open>uint16_t ww = v * (255 - s); ww += 1; ww += ww >> 8;
  c = byte(ww >> 8)\<close>. The product is an \<open>int\<close> product stored in 16 bits.
\<close>

definition bottom :: "byte \<Rightarrow> byte \<Rightarrow> byte" where
  "bottom s v =
     (let ww = (ucast v * (255 - ucast s) :: 16 word);
          ww = ww + 1;
          ww = ww + drop_bit 8 ww
      in ucast (drop_bit 8 ww))"

text \<open>
  The slopes. \<open>uint32_t d = v * (uint32_t)((255 << 8) - (uint16_t)(s * (256 - h_fraction)));
  d += d >> 8; d += v;\<close> and the same with \<open>s * h_fraction\<close>. The inner
  difference is a 16-bit unsigned one; the outer product is 32 bits wide. The callers pass
  \<open>d >> 16\<close> where a \<open>byte\<close> is expected, which keeps its low 8 bits.
\<close>

definition slope_up :: "byte \<Rightarrow> byte \<Rightarrow> byte \<Rightarrow> 32 word" where
  "slope_up h_fraction s v =
     (let d = (ucast v * ucast ((push_bit 8 255 :: 16 word) - ucast s * (256 - ucast h_fraction)) :: 32 word);
          d = d + drop_bit 8 d;
          d = d + ucast v
      in d)"

definition slope_down :: "byte \<Rightarrow> byte \<Rightarrow> byte \<Rightarrow> 32 word" where
  "slope_down h_fraction s v =
     (let d = (ucast v * ucast ((push_bit 8 255 :: 16 word) - ucast s * ucast h_fraction) :: 32 word);
          d = d + drop_bit 8 d;
          d = d + ucast v
      in d)"

text \<open>
  \<open>setHSV\<close>, with its two early returns and its two \<open>switch\<close> statements, neither of
  which has a \<open>default\<close>: a sextant outside the listed cases writes nothing.
\<close>

definition setHSV :: "byte \<Rightarrow> byte \<Rightarrow> 16 word \<Rightarrow> byte \<Rightarrow> byte \<Rightarrow> rgb_t list \<Rightarrow> rgb_t list" where
  "setHSV LEN pos h s v data =
     (if v = 0 then setRGB4 LEN pos 0 0 0 data
      else if s = 0 then setRGB4 LEN pos v v v data
      else
        let sx = sextant h;
            c = bottom s v;
            h_fraction = (ucast (h AND 0xff) :: byte)
        in if sx AND 1 = 0 then
             (let d = slope_up h_fraction s v in
              if sx = 0 then setRGB4 LEN pos v (ucast (drop_bit 16 d)) c data
              else if sx = 2 then setRGB4 LEN pos c v (ucast (drop_bit 16 d)) data
              else if sx = 4 then setRGB4 LEN pos (ucast (drop_bit 16 d)) c v data
              else data)
           else
             (let d = slope_down h_fraction s v in
              if sx = 1 then setRGB4 LEN pos (ucast (drop_bit 16 d)) v c data
              else if sx = 3 then setRGB4 LEN pos c (ucast (drop_bit 16 d)) v data
              else if sx = 5 then setRGB4 LEN pos v c (ucast (drop_bit 16 d)) data
              else data))"

subsection \<open>The port and what is observable on it\<close>

text \<open>
  Everything \<open>flush\<close> does to the outside world, in program order: a store to \<open>PORTB\<close>
  (with the value stored), a run of \<open>nop\<close> instructions, \<open>cli\<close>, \<open>sei\<close>, and the
  call \<open>delayMicroseconds\<close>.
\<close>

datatype event = Port byte | Nop nat | Cli | Sei | DelayMicroseconds nat

record avr =
  PORTB :: byte
  interrupts :: bool
  out :: "event list"

definition write_PORTB :: "byte \<Rightarrow> avr \<Rightarrow> avr" where
  "write_PORTB x st = st\<lparr>PORTB := x, out := out st @ [Port x]\<rparr>"

definition nop :: "nat \<Rightarrow> avr \<Rightarrow> avr" where
  "nop n st = st\<lparr>out := out st @ [Nop n]\<rparr>"

definition cli :: "avr \<Rightarrow> avr" where
  "cli st = st\<lparr>interrupts := False, out := out st @ [Cli]\<rparr>"

definition sei :: "avr \<Rightarrow> avr" where
  "sei st = st\<lparr>interrupts := True, out := out st @ [Sei]\<rparr>"

definition delayMicroseconds :: "nat \<Rightarrow> avr \<Rightarrow> avr" where
  "delayMicroseconds n st = st\<lparr>out := out st @ [DelayMicroseconds n]\<rparr>"

text \<open>\<open>_BV(PIN)\<close> is \<open>(1 << (PIN))\<close>, an \<open>int\<close>.\<close>

definition BV :: "byte \<Rightarrow> 16 word" where
  "BV PIN = push_bit (unat PIN) 1"

text \<open>The logical negation \<open>!x\<close> of an \<open>int\<close>: 1 when \<open>x\<close> is 0, else 0.\<close>

definition lnot :: "16 word \<Rightarrow> 16 word" where
  "lnot x = (if x = 0 then 1 else 0)"

text \<open>
  \<open>PORTB |= x\<close> and \<open>PORTB &= x\<close> read the register, combine it with the \<open>int\<close>
  operand and store the low 8 bits.
\<close>

definition PORTB_or :: "16 word \<Rightarrow> avr \<Rightarrow> avr" where
  "PORTB_or x st = write_PORTB (ucast (ucast (PORTB st) OR x)) st"

definition PORTB_and :: "16 word \<Rightarrow> avr \<Rightarrow> avr" where
  "PORTB_and x st = write_PORTB (ucast (ucast (PORTB st) AND x)) st"

definition sendBit :: "byte \<Rightarrow> bool \<Rightarrow> avr \<Rightarrow> avr" where
  "sendBit PIN bv st =
     (let st = PORTB_or (BV PIN) st;
          st = nop 2 st;
          st = PORTB_and (if bv then 0x0FF else lnot (BV PIN)) st;
          st = nop 5 st;
          st = PORTB_and (lnot (BV PIN)) st
      in st)"

text \<open>
  \<open>sendRGB\<close> and \<open>sendGRB\<close>, call by call. The argument \<open>0x80 & rgb.r\<close> is an
  \<open>int\<close> converted to the \<open>bool\<close> parameter of \<open>sendBit\<close>: true when it is not 0.
\<close>

definition sendRGB :: "byte \<Rightarrow> rgb_t \<Rightarrow> avr \<Rightarrow> avr" where
  "sendRGB PIN rgb st =
     (let st = cli st;
          st = sendBit PIN (0x80 AND r rgb \<noteq> 0) st;
          st = sendBit PIN (0x40 AND r rgb \<noteq> 0) st;
          st = sendBit PIN (0x20 AND r rgb \<noteq> 0) st;
          st = sendBit PIN (0x10 AND r rgb \<noteq> 0) st;
          st = sendBit PIN (0x08 AND r rgb \<noteq> 0) st;
          st = sendBit PIN (0x04 AND r rgb \<noteq> 0) st;
          st = sendBit PIN (0x02 AND r rgb \<noteq> 0) st;
          st = sendBit PIN (0x01 AND r rgb \<noteq> 0) st;
          st = sei st;
          st = cli st;
          st = sendBit PIN (0x80 AND g rgb \<noteq> 0) st;
          st = sendBit PIN (0x40 AND g rgb \<noteq> 0) st;
          st = sendBit PIN (0x20 AND g rgb \<noteq> 0) st;
          st = sendBit PIN (0x10 AND g rgb \<noteq> 0) st;
          st = sendBit PIN (0x08 AND g rgb \<noteq> 0) st;
          st = sendBit PIN (0x04 AND g rgb \<noteq> 0) st;
          st = sendBit PIN (0x02 AND g rgb \<noteq> 0) st;
          st = sendBit PIN (0x01 AND g rgb \<noteq> 0) st;
          st = sei st;
          st = cli st;
          st = sendBit PIN (0x80 AND b rgb \<noteq> 0) st;
          st = sendBit PIN (0x40 AND b rgb \<noteq> 0) st;
          st = sendBit PIN (0x20 AND b rgb \<noteq> 0) st;
          st = sendBit PIN (0x10 AND b rgb \<noteq> 0) st;
          st = sendBit PIN (0x08 AND b rgb \<noteq> 0) st;
          st = sendBit PIN (0x04 AND b rgb \<noteq> 0) st;
          st = sendBit PIN (0x02 AND b rgb \<noteq> 0) st;
          st = sendBit PIN (0x01 AND b rgb \<noteq> 0) st;
          st = sei st
      in st)"

definition sendGRB :: "byte \<Rightarrow> rgb_t \<Rightarrow> avr \<Rightarrow> avr" where
  "sendGRB PIN rgb st =
     (let st = cli st;
          st = sendBit PIN (0x80 AND g rgb \<noteq> 0) st;
          st = sendBit PIN (0x40 AND g rgb \<noteq> 0) st;
          st = sendBit PIN (0x20 AND g rgb \<noteq> 0) st;
          st = sendBit PIN (0x10 AND g rgb \<noteq> 0) st;
          st = sendBit PIN (0x08 AND g rgb \<noteq> 0) st;
          st = sendBit PIN (0x04 AND g rgb \<noteq> 0) st;
          st = sendBit PIN (0x02 AND g rgb \<noteq> 0) st;
          st = sendBit PIN (0x01 AND g rgb \<noteq> 0) st;
          st = sei st;
          st = cli st;
          st = sendBit PIN (0x80 AND r rgb \<noteq> 0) st;
          st = sendBit PIN (0x40 AND r rgb \<noteq> 0) st;
          st = sendBit PIN (0x20 AND r rgb \<noteq> 0) st;
          st = sendBit PIN (0x10 AND r rgb \<noteq> 0) st;
          st = sendBit PIN (0x08 AND r rgb \<noteq> 0) st;
          st = sendBit PIN (0x04 AND r rgb \<noteq> 0) st;
          st = sendBit PIN (0x02 AND r rgb \<noteq> 0) st;
          st = sendBit PIN (0x01 AND r rgb \<noteq> 0) st;
          st = sei st;
          st = cli st;
          st = sendBit PIN (0x80 AND b rgb \<noteq> 0) st;
          st = sendBit PIN (0x40 AND b rgb \<noteq> 0) st;
          st = sendBit PIN (0x20 AND b rgb \<noteq> 0) st;
          st = sendBit PIN (0x10 AND b rgb \<noteq> 0) st;
          st = sendBit PIN (0x08 AND b rgb \<noteq> 0) st;
          st = sendBit PIN (0x04 AND b rgb \<noteq> 0) st;
          st = sendBit PIN (0x02 AND b rgb \<noteq> 0) st;
          st = sendBit PIN (0x01 AND b rgb \<noteq> 0) st;
          st = sei st
      in st)"

text \<open>
  The body of the loop of \<open>flush\<close>: \<open>if (ORDER == RGB) ... else if (ORDER == GRB) ...\<close>,
  and nothing for any other \<open>ORDER\<close>.
\<close>

definition send :: "byte \<Rightarrow> byte \<Rightarrow> rgb_t \<Rightarrow> avr \<Rightarrow> avr" where
  "send PIN ORDER rgb st =
     (if ORDER = RGB then sendRGB PIN rgb st
      else if ORDER = GRB then sendGRB PIN rgb st
      else st)"

text \<open>
  \<open>for (unsigned i = 0; i < LEN; ++i)\<close>: the counter is 16 bits wide and \<open>LEN\<close> is
  converted to it for the comparison.
\<close>

function flush_loop :: "byte \<Rightarrow> byte \<Rightarrow> byte \<Rightarrow> rgb_t list \<Rightarrow> 16 word \<Rightarrow> avr \<Rightarrow> avr" where
  "flush_loop PIN LEN ORDER data i st =
     (if i < ucast LEN then flush_loop PIN LEN ORDER data (i + 1) (send PIN ORDER (data ! unat i) st)
      else st)"
  by pat_completeness auto
termination
proof (relation "measure (\<lambda>(PIN, LEN, ORDER, data, i, st). unat (ucast LEN :: 16 word) - unat i)")
  show "wf (measure (\<lambda>(PIN, LEN, ORDER, data, i, st). unat (ucast LEN :: 16 word) - unat i))"
    by simp
next
  fix PIN LEN ORDER :: byte and data :: "rgb_t list" and i :: "16 word" and st :: avr
  assume lt: "i < ucast LEN"
  then have "unat i < unat (ucast LEN :: 16 word)"
    by (simp add: word_less_nat_alt)
  moreover have "unat (ucast LEN :: 16 word) < 256"
    using unsigned_less [of LEN, where 'a = nat]
    by (simp add: unsigned_ucast_eq take_bit_nat_eq_self)
  ultimately have "unat (i + 1) = unat i + 1"
    by (simp add: unat_word_ariths)
  with \<open>unat i < unat (ucast LEN :: 16 word)\<close>
  show "((PIN, LEN, ORDER, data, i + 1, send PIN ORDER (data ! unat i) st),
         (PIN, LEN, ORDER, data, i, st))
        \<in> measure (\<lambda>(PIN, LEN, ORDER, data, i, st). unat (ucast LEN :: 16 word) - unat i)"
    by simp
qed

text \<open>The loop's equation is applied by hand, one iteration at a time.\<close>

declare flush_loop.simps [simp del]

definition flush :: "byte \<Rightarrow> byte \<Rightarrow> byte \<Rightarrow> rgb_t list \<Rightarrow> avr \<Rightarrow> avr" where
  "flush PIN LEN ORDER data st =
     (let st = write_PORTB 0 st;
          st = delayMicroseconds 50 st
      in flush_loop PIN LEN ORDER data 0 st)"

subsection \<open>The specification's side\<close>

text \<open>
  The definitions below are not code of the driver. They say, in the specification's
  words, what the claims compare the code with.

  Two triplets agree "within 1 LSB per channel".
\<close>

definition within1 :: "rgb_t \<Rightarrow> rgb_t \<Rightarrow> bool" where
  "within1 p q =
     (\<bar>uint (r p) - uint (r q)\<bar> \<le> 1 \<and> \<bar>uint (g p) - uint (g q)\<bar> \<le> 1 \<and> \<bar>uint (b p) - uint (b q)\<bar> \<le> 1)"

text \<open>The value of port B with the line of pin \<open>PIN\<close> high and the other lines low.\<close>

definition line_high :: "byte \<Rightarrow> byte" where
  "line_high PIN = push_bit (unat PIN) 1"

text \<open>
  A pulse, as the port sees it. Long (bit 1): the line rises, stays high through both
  \<open>nop\<close> runs and falls. Short (bit 0): the line rises, falls after the first run and
  stays low through the second.
\<close>

definition long_pulse :: "byte \<Rightarrow> event list" where
  "long_pulse PIN = [Port (line_high PIN), Nop 2, Port (line_high PIN), Nop 5, Port 0]"

definition short_pulse :: "byte \<Rightarrow> event list" where
  "short_pulse PIN = [Port (line_high PIN), Nop 2, Port 0, Nop 5, Port 0]"

definition pulse :: "byte \<Rightarrow> bool \<Rightarrow> event list" where
  "pulse PIN v = (if v then long_pulse PIN else short_pulse PIN)"

text \<open>A byte on the wire: interrupts off, its eight bits from bit 7 down to bit 0, interrupts on.\<close>

definition byte_wave :: "byte \<Rightarrow> byte \<Rightarrow> event list" where
  "byte_wave PIN x = [Cli] @ concat (map (\<lambda>i. pulse PIN (bit x i)) [7, 6, 5, 4, 3, 2, 1, 0]) @ [Sei]"

text \<open>The start of a frame: the whole port low, then the reset interval.\<close>

definition reset_wave :: "event list" where
  "reset_wave = [Port 0, DelayMicroseconds 50]"

text \<open>A pixel with its red and green bytes exchanged.\<close>

definition swap_rg :: "rgb_t \<Rightarrow> rgb_t" where
  "swap_rg p = \<lparr>r = g p, g = r p, b = b p\<rparr>"

section \<open>Auxiliary facts\<close>

subsection \<open>The hue arithmetic\<close>

lemma unat_ucast_byte: "unat (ucast (x::byte) :: 16 word) = unat x"
  using unsigned_less [of x, where 'a = nat]
  by (simp add: unsigned_ucast_eq take_bit_nat_eq_self)

lemma drop_mod_le: "unat (drop_bit 8 (h mod (6 * 256)) :: 16 word) = unat h mod 1536 div 256"
  by (simp add: unat_drop_bit_eq unat_mod unat_div drop_bit_eq_div)

lemma drop_mod_le5: "drop_bit 8 (h mod (6 * 256)) \<le> (5 :: 16 word)"
proof -
  have "unat h mod 1536 div 256 \<le> 5" by simp
  then show ?thesis
    unfolding word_le_nat_alt drop_mod_le by simp
qed

lemma sextant_eq: "sextant h = ucast (drop_bit 8 (h mod (6 * 256)))"
  using drop_mod_le5 [of h] by (simp add: sextant_def not_less [symmetric])

lemma unat_sextant: "unat (sextant h) = unat h mod 1536 div 256"
proof -
  have "unat h mod 1536 div 256 < 256" by simp
  then show ?thesis
    unfolding sextant_eq
    by (simp only: unsigned_ucast_eq drop_mod_le) (simp add: take_bit_nat_eq_self)
qed

lemma sextant_cases: "sextant h = 0 \<or> sextant h = 1 \<or> sextant h = 2 \<or> sextant h = 3 \<or> sextant h = 4 \<or> sextant h = 5"
proof -
  have "unat (sextant h) \<le> 5" unfolding unat_sextant by simp
  then have "unat (sextant h) = 0 \<or> unat (sextant h) = 1 \<or> unat (sextant h) = 2 \<or> unat (sextant h) = 3 \<or> unat (sextant h) = 4 \<or> unat (sextant h) = 5" by arith
  then show ?thesis
    by (simp add: word_unat_eq_iff)
qed

lemma mod_shift: "unat h + 1536 < 65536 \<Longrightarrow> (h + 1536) mod (6 * 256) = h mod (6 * 256 :: 16 word)"
  by (simp add: word_unat_eq_iff unat_mod unat_word_ariths)

lemma and_shift: "(h + 1536) AND 0xff = h AND (0xff :: 16 word)"
proof -
  have "(unat h + 1536) mod 256 = unat h mod 256"
    using mod_mult_self2 [of "unat h" 256 6] by simp
  then have "take_bit 8 (h + 1536) = take_bit 8 h"
    by (simp add: word_unat_eq_iff unsigned_take_bit_eq take_bit_eq_mod unat_word_ariths mod_mod_cancel)
  then show ?thesis
    by (simp add: take_bit_eq_mask mask_eq_exp_minus_1)
qed

lemma sextant_shift: "unat h + 1536 < 65536 \<Longrightarrow> sextant (h + 1536) = sextant h"
  by (simp only: sextant_def mod_shift)

lemma sextant_0: "sextant 0 = 0"
  by (simp add: sextant_def)

lemma sextant_255: "sextant 255 = 0"
  by (simp add: sextant_def)

lemma sextant_256: "sextant 256 = 1"
  by (simp add: sextant_def)

lemma bottom_full: "bottom 255 255 = 0"
  by (simp add: bottom_def)

lemma slope_up_0: "(ucast (drop_bit 16 (slope_up 0 255 255)) :: byte) = 0"
  by (simp add: slope_up_def)

lemma slope_up_255: "(ucast (drop_bit 16 (slope_up 255 255 255)) :: byte) = 254"
  by (simp add: slope_up_def)

lemma slope_down_0: "(ucast (drop_bit 16 (slope_down 0 255 255)) :: byte) = 255"
  by (simp add: slope_down_def)

subsection \<open>Writes to the buffer\<close>

lemma unat_lt_length:
  "pos < LEN \<Longrightarrow> length data = unat LEN \<Longrightarrow> unat pos < length (data :: rgb_t list)"
  for pos LEN :: byte
  by (simp add: word_less_nat_alt)

lemma setRGB4_read:
  "pos < LEN \<Longrightarrow> length data = unat LEN \<Longrightarrow>
   setRGB4 LEN pos rv gv bv data ! unat pos = \<lparr>r = rv, g = gv, b = bv\<rparr>"
  using unat_lt_length [of pos LEN data] by (simp add: setRGB4_def setRGB_def)

lemma setHSV_0: "setHSV LEN pos 0 255 255 data = setRGB4 LEN pos 255 0 0 data"
  by (simp add: setHSV_def sextant_0 bottom_full slope_up_0)

lemma setHSV_255: "setHSV LEN pos 255 255 255 data = setRGB4 LEN pos 255 254 0 data"
  by (simp add: setHSV_def sextant_255 bottom_full slope_up_255)

lemma setHSV_256: "setHSV LEN pos 256 255 255 data = setRGB4 LEN pos 255 255 0 data"
  by (simp add: setHSV_def sextant_256 bottom_full slope_down_0)

lemma setHSV_is_setRGB: "\<exists>x. setHSV LEN pos h s v data = setRGB LEN pos x data"
  using sextant_cases [of h]
  by (auto simp add: setHSV_def setRGB4_def Let_def)

subsection \<open>One bit, one byte, one pixel on the port\<close>

lemma BV_nonzero: "PIN < 16 \<Longrightarrow> BV PIN \<noteq> 0"
  by (simp add: BV_def word_less_nat_alt)

lemma lnot_BV: "PIN < 16 \<Longrightarrow> lnot (BV PIN) = 0"
  by (simp add: lnot_def BV_nonzero)

lemma ucast_BV: "(ucast (BV PIN) :: byte) = line_high PIN"
  unfolding BV_def line_high_def
  by (rule bit_word_eqI) (simp add: bit_simps)

lemma ucast_or: "(ucast ((ucast (x::byte) :: 16 word) OR y) :: byte) = x OR ucast y"
  by (rule bit_word_eqI) (simp add: bit_simps)

lemma ucast_and: "(ucast ((ucast (x::byte) :: 16 word) AND y) :: byte) = x AND ucast y"
  by (rule bit_word_eqI) (simp add: bit_simps)

lemma mask_7: "(0x80 AND x \<noteq> 0) = bit (x::byte) 7"
  using bit_iff_and_push_bit_not_eq_0 [of x 7] by (simp add: and.commute)
lemma mask_6: "(0x40 AND x \<noteq> 0) = bit (x::byte) 6"
  using bit_iff_and_push_bit_not_eq_0 [of x 6] by (simp add: and.commute)
lemma mask_5: "(0x20 AND x \<noteq> 0) = bit (x::byte) 5"
  using bit_iff_and_push_bit_not_eq_0 [of x 5] by (simp add: and.commute)
lemma mask_4: "(0x10 AND x \<noteq> 0) = bit (x::byte) 4"
  using bit_iff_and_push_bit_not_eq_0 [of x 4] by (simp add: and.commute)
lemma mask_3: "(0x08 AND x \<noteq> 0) = bit (x::byte) 3"
  using bit_iff_and_push_bit_not_eq_0 [of x 3] by (simp add: and.commute)
lemma mask_2: "(0x04 AND x \<noteq> 0) = bit (x::byte) 2"
  using bit_iff_and_push_bit_not_eq_0 [of x 2] by (simp add: and.commute)
lemma mask_1: "(0x02 AND x \<noteq> 0) = bit (x::byte) 1"
  using bit_iff_and_push_bit_not_eq_0 [of x 1] by (simp add: and.commute)
lemma mask_0: "(0x01 AND x \<noteq> 0) = bit (x::byte) 0"
  using bit_iff_and_push_bit_not_eq_0 [of x 0] by (simp add: and.commute)

lemmas mask_tests = mask_7 mask_6 mask_5 mask_4 mask_3 mask_2 mask_1 mask_0

lemma and_255: "x AND (255 :: byte) = x"
proof -
  have "(255 :: byte) = - 1" by simp
  then show ?thesis by (simp only: and.right_neutral)
qed

lemma sendBit_eq:
  "PIN < 16 \<Longrightarrow> sendBit PIN v st =
     st\<lparr>PORTB := 0,
        out := out st @ [Port (PORTB st OR line_high PIN), Nop 2,
                         Port (if v then PORTB st OR line_high PIN else 0), Nop 5, Port 0]\<rparr>"
  by (simp add: sendBit_def PORTB_or_def PORTB_and_def write_PORTB_def nop_def lnot_BV
        ucast_or ucast_and ucast_BV and_255)

lemma sendBit_low:
  "PIN < 16 \<Longrightarrow> PORTB st = 0 \<Longrightarrow> sendBit PIN v st = st\<lparr>out := out st @ pulse PIN v\<rparr>"
  by (simp add: sendBit_eq pulse_def long_pulse_def short_pulse_def)

lemma burst:
  assumes "PIN < 16" and "PORTB st = 0"
  shows "sei (sendBit PIN (0x01 AND x \<noteq> 0) (sendBit PIN (0x02 AND x \<noteq> 0)
          (sendBit PIN (0x04 AND x \<noteq> 0) (sendBit PIN (0x08 AND x \<noteq> 0)
          (sendBit PIN (0x10 AND x \<noteq> 0) (sendBit PIN (0x20 AND x \<noteq> 0)
          (sendBit PIN (0x40 AND x \<noteq> 0) (sendBit PIN (0x80 AND x \<noteq> 0) (cli st)))))))))
         = st\<lparr>interrupts := True, out := out st @ byte_wave PIN x\<rparr>"
  using assms by (simp add: sendBit_low cli_def sei_def mask_tests byte_wave_def)

lemma sendRGB_low:
  "PIN < 16 \<Longrightarrow> PORTB st = 0 \<Longrightarrow>
   sendRGB PIN p st =
     st\<lparr>interrupts := True,
        out := out st @ byte_wave PIN (r p) @ byte_wave PIN (g p) @ byte_wave PIN (b p)\<rparr>"
  unfolding sendRGB_def Let_def
  by (simp add: burst)

lemma sendGRB_swap: "sendGRB PIN p st = sendRGB PIN (swap_rg p) st"
  unfolding sendGRB_def sendRGB_def Let_def by (simp add: swap_rg_def)

lemma sendGRB_low:
  "PIN < 16 \<Longrightarrow> PORTB st = 0 \<Longrightarrow>
   sendGRB PIN p st =
     st\<lparr>interrupts := True,
        out := out st @ byte_wave PIN (g p) @ byte_wave PIN (r p) @ byte_wave PIN (b p)\<rparr>"
  by (simp add: sendGRB_swap sendRGB_low swap_rg_def)

lemma unat_succ: "i < (ucast (LEN::byte) :: 16 word) \<Longrightarrow> unat (i + 1) = Suc (unat i)"
  using unsigned_less [of LEN, where 'a = nat]
  by (simp add: word_less_nat_alt unat_word_ariths unat_ucast_byte)

lemma flush_loop_foldl:
  "length data = unat LEN \<Longrightarrow> unat i \<le> unat LEN \<Longrightarrow>
   flush_loop PIN LEN ORDER data i st = foldl (\<lambda>s p. send PIN ORDER p s) st (drop (unat i) data)"
proof (induction PIN LEN ORDER data i st rule: flush_loop.induct)
  case (1 PIN LEN ORDER data i st)
  show ?case
  proof (cases "i < ucast LEN")
    case True
    then have lt: "unat i < length data"
      using "1.prems" by (simp add: word_less_nat_alt unat_ucast_byte)
    have suc: "unat (i + 1) = Suc (unat i)"
      using True by (rule unat_succ)
    have "flush_loop PIN LEN ORDER data i st
          = flush_loop PIN LEN ORDER data (i + 1) (send PIN ORDER (data ! unat i) st)"
      using True by (simp add: flush_loop.simps [of PIN LEN ORDER data i])
    also have "\<dots> = foldl (\<lambda>s p. send PIN ORDER p s) (send PIN ORDER (data ! unat i) st)
                       (drop (Suc (unat i)) data)"
      using "1.IH" [OF True] "1.prems" lt suc by simp
    also have "\<dots> = foldl (\<lambda>s p. send PIN ORDER p s) st (drop (unat i) data)"
      using lt by (simp add: Cons_nth_drop_Suc [symmetric])
    finally show ?thesis .
  next
    case False
    then have "unat i = length data"
      using "1.prems" by (simp add: word_less_nat_alt unat_ucast_byte)
    with False show ?thesis
      by (simp add: flush_loop.simps [of PIN LEN ORDER data i])
  qed
qed

lemma foldl_send_RGB:
  "PIN < 16 \<Longrightarrow> PORTB st = 0 \<Longrightarrow>
   foldl (\<lambda>s p. send PIN RGB p s) st ps =
     st\<lparr>interrupts := (if ps = [] then interrupts st else True),
        out := out st @ concat (map (\<lambda>p. byte_wave PIN (r p) @ byte_wave PIN (g p) @ byte_wave PIN (b p)) ps)\<rparr>"
  by (induction ps arbitrary: st) (simp_all add: send_def sendRGB_low)

lemma foldl_send_GRB:
  "PIN < 16 \<Longrightarrow> PORTB st = 0 \<Longrightarrow>
   foldl (\<lambda>s p. send PIN GRB p s) st ps =
     st\<lparr>interrupts := (if ps = [] then interrupts st else True),
        out := out st @ concat (map (\<lambda>p. byte_wave PIN (g p) @ byte_wave PIN (r p) @ byte_wave PIN (b p)) ps)\<rparr>"
  by (induction ps arbitrary: st) (simp_all add: send_def sendGRB_low RGB_def GRB_def)

lemma flush_foldl:
  "length data = unat LEN \<Longrightarrow>
   flush PIN LEN ORDER data st =
     foldl (\<lambda>s p. send PIN ORDER p s) (st\<lparr>PORTB := 0, out := out st @ reset_wave\<rparr>) data"
  by (simp add: flush_def Let_def flush_loop_foldl write_PORTB_def delayMicroseconds_def reset_wave_def)

lemma flush_RGB:
  "PIN < 16 \<Longrightarrow> length data = unat LEN \<Longrightarrow>
   flush PIN LEN RGB data st =
     st\<lparr>PORTB := 0, interrupts := (if data = [] then interrupts st else True),
        out := out st @ reset_wave @
          concat (map (\<lambda>p. byte_wave PIN (r p) @ byte_wave PIN (g p) @ byte_wave PIN (b p)) data)\<rparr>"
  by (simp add: flush_foldl foldl_send_RGB)

lemma flush_GRB:
  "PIN < 16 \<Longrightarrow> length data = unat LEN \<Longrightarrow>
   flush PIN LEN GRB data st =
     st\<lparr>PORTB := 0, interrupts := (if data = [] then interrupts st else True),
        out := out st @ reset_wave @
          concat (map (\<lambda>p. byte_wave PIN (g p) @ byte_wave PIN (r p) @ byte_wave PIN (b p)) data)\<rparr>"
  by (simp add: flush_foldl foldl_send_GRB)

lemma PORTB_send: "PIN < 16 \<Longrightarrow> PORTB st = 0 \<Longrightarrow> PORTB (send PIN ORDER p st) = 0"
  by (simp add: send_def sendRGB_low sendGRB_low)

lemma PORTB_flush_loop:
  "PIN < 16 \<Longrightarrow> PORTB st = 0 \<Longrightarrow> PORTB (flush_loop PIN LEN ORDER data i st) = 0"
proof (induction PIN LEN ORDER data i st rule: flush_loop.induct)
  case (1 PIN LEN ORDER data i st)
  show ?case
  proof (cases "i < ucast LEN")
    case True
    have "PORTB (send PIN ORDER (data ! unat i) st) = 0"
      using "1.prems" by (rule PORTB_send)
    with "1.IH" [OF True "1.prems"(1)] True show ?thesis
      by (simp add: flush_loop.simps [of PIN LEN ORDER data i])
  next
    case False
    with "1.prems" show ?thesis
      by (simp add: flush_loop.simps [of PIN LEN ORDER data i])
  qed
qed

lemma replicate_8: "replicate 8 x = [x, x, x, x, x, x, x, x]"
  by (simp add: eval_nat_numeral)

section \<open>The claims\<close>

subsection \<open>Pixel buffer\<close>

text \<open>
  C3. For every position \<open>pos\<close> in \<open>[0, LEN - 1]\<close> and all bytes \<open>r\<close>, \<open>g\<close>, \<open>b\<close>,
  after \<open>setRGB(pos, r, g, b)\<close> the slot \<open>pos\<close> of the buffer holds exactly the
  triplet \<open>(r, g, b)\<close>; the same holds for the overload that takes a triplet.
\<close>

theorem setRGB_then_read:
  "pos < LEN \<Longrightarrow> length data = unat LEN \<Longrightarrow>
   setRGB4 LEN pos rv gv bv data ! unat pos = \<lparr>r = rv, g = gv, b = bv\<rparr> \<and>
   setRGB LEN pos rgb data ! unat pos = rgb"
  using unat_lt_length [of pos LEN data] by (simp add: setRGB4_def setRGB_def)

text \<open>A buffer of three pixels, written at its last position.\<close>

theorem setRGB_then_read_witness:
  "setRGB4 3 2 10 20 30 [\<lparr>r = 1, g = 1, b = 1\<rparr>, \<lparr>r = 2, g = 2, b = 2\<rparr>, \<lparr>r = 3, g = 3, b = 3\<rparr>] ! unat (2 :: byte)
     = \<lparr>r = 10, g = 20, b = 30\<rparr>"
  using setRGB_then_read [of 2 3 "[\<lparr>r = 1, g = 1, b = 1\<rparr>, \<lparr>r = 2, g = 2, b = 2\<rparr>, \<lparr>r = 3, g = 3, b = 3\<rparr>]" 10 20 30]
  by simp

text \<open>
  C4. For every position \<open>pos\<close> outside \<open>[0, LEN - 1]\<close>, \<open>setRGB\<close> is a silent no-op:
  it has no error to raise, and the buffer it leaves is the buffer it was given, so no slot
  has changed. The position is a \<open>byte\<close>, so "outside" is \<open>pos \<ge> LEN\<close>.
\<close>

theorem setRGB_out_of_range:
  "\<not> pos < LEN \<Longrightarrow>
   setRGB LEN pos rgb data = data \<and> setRGB4 LEN pos rv gv bv data = data"
  by (simp add: setRGB4_def setRGB_def)

text \<open>A buffer of three pixels, written one past its end.\<close>

theorem setRGB_out_of_range_witness:
  "setRGB4 3 3 10 20 30 [\<lparr>r = 1, g = 1, b = 1\<rparr>, \<lparr>r = 2, g = 2, b = 2\<rparr>, \<lparr>r = 3, g = 3, b = 3\<rparr>]
     = [\<lparr>r = 1, g = 1, b = 1\<rparr>, \<lparr>r = 2, g = 2, b = 2\<rparr>, \<lparr>r = 3, g = 3, b = 3\<rparr>]"
  using setRGB_out_of_range [of 3 3 _ "[\<lparr>r = 1, g = 1, b = 1\<rparr>, \<lparr>r = 2, g = 2, b = 2\<rparr>, \<lparr>r = 3, g = 3, b = 3\<rparr>]" 10 20 30]
  by simp

subsection \<open>HSV to RGB\<close>

text \<open>
  The driver has no conversion function of its own: \<open>setHSV\<close> computes the triplet and
  writes it. "The triplet \<open>convert(h, s, v)\<close>" of the claims is what \<open>setHSV\<close> leaves in
  the slot it writes.

  C5. The conversion is periodic in the hue with period 1536: for every hue \<open>h\<close> such
  that \<open>h + 1536\<close> does not wrap the 16-bit \<open>unsigned\<close>, and every saturation and value,
  \<open>setHSV\<close> with hue \<open>h + 1536\<close> does what it does with hue \<open>h\<close>.
\<close>

theorem setHSV_periodic:
  "unat h + 1536 < 2 ^ 16 \<Longrightarrow> setHSV LEN pos (h + 1536) s v data = setHSV LEN pos h s v data"
  by (simp add: setHSV_def sextant_shift and_shift)

text \<open>Hue 700 and hue 2236.\<close>

theorem setHSV_periodic_witness:
  "setHSV 1 0 (700 + 1536) 100 200 [\<lparr>r = 9, g = 9, b = 9\<rparr>] = setHSV 1 0 700 100 200 [\<lparr>r = 9, g = 9, b = 9\<rparr>]"
  using setHSV_periodic [of 700 1 0 100 200 "[\<lparr>r = 9, g = 9, b = 9\<rparr>]"]
  by simp

text \<open>
  C6. Hue 0 lies in sextant 0, and with full saturation and full value it gives a
  triplet within 1 per channel of \<open>(255, 0, 0)\<close>: it gives \<open>(255, 0, 0)\<close> itself.
\<close>

theorem setHSV_red:
  "pos < LEN \<Longrightarrow> length data = unat LEN \<Longrightarrow>
   sextant 0 = 0 \<and>
   within1 (setHSV LEN pos 0 255 255 data ! unat pos) \<lparr>r = 255, g = 0, b = 0\<rparr> \<and>
   setHSV LEN pos 0 255 255 data ! unat pos = \<lparr>r = 255, g = 0, b = 0\<rparr>"
  by (simp add: sextant_0 setHSV_0 setRGB4_read within1_def)

theorem setHSV_red_witness:
  "setHSV 1 0 0 255 255 [\<lparr>r = 9, g = 9, b = 9\<rparr>] ! unat (0 :: byte) = \<lparr>r = 255, g = 0, b = 0\<rparr>"
  using setHSV_red [of 0 1 "[\<lparr>r = 9, g = 9, b = 9\<rparr>]"] by simp

text \<open>
  C7, in the form that holds. Hue 255 is the last of sextant 0 and hue 256 the first of
  sextant 1.
  With full saturation and full value, hue 256 gives \<open>(255, 255, 0)\<close>: yellow, where the
  green channel has reached 255 and the red channel has not yet begun to fall. Hue 255
  gives \<open>(255, 254, 0)\<close>, so the two results differ by at most 1 in every channel.
\<close>

theorem setHSV_boundary:
  "pos < LEN \<Longrightarrow> length data = unat LEN \<Longrightarrow>
   sextant 255 = 0 \<and> sextant 256 = 1 \<and>
   setHSV LEN pos 256 255 255 data ! unat pos = \<lparr>r = 255, g = 255, b = 0\<rparr> \<and>
   setHSV LEN pos 255 255 255 data ! unat pos = \<lparr>r = 255, g = 254, b = 0\<rparr> \<and>
   within1 (setHSV LEN pos 255 255 255 data ! unat pos) (setHSV LEN pos 256 255 255 data ! unat pos)"
  by (simp add: sextant_255 sextant_256 setHSV_255 setHSV_256 setRGB4_read within1_def)

theorem setHSV_boundary_witness:
  "setHSV 1 0 256 255 255 [\<lparr>r = 9, g = 9, b = 9\<rparr>] ! unat (0 :: byte) = \<lparr>r = 255, g = 255, b = 0\<rparr> \<and>
   setHSV 1 0 255 255 255 [\<lparr>r = 9, g = 9, b = 9\<rparr>] ! unat (0 :: byte) = \<lparr>r = 255, g = 254, b = 0\<rparr>"
  using setHSV_boundary [of 0 1 "[\<lparr>r = 9, g = 9, b = 9\<rparr>]"] by simp

text \<open>
  C7 as written asks that hue 256 give a value close to \<open>(0, 255, 0)\<close>. It does not:
  the red channel is 255, so the result is not within 1 per channel of green.
\<close>

theorem setHSV_256_not_green:
  "r (setHSV 1 0 256 255 255 [\<lparr>r = 0, g = 0, b = 0\<rparr>] ! 0) = 255 \<and>
   \<not> within1 (setHSV 1 0 256 255 255 [\<lparr>r = 0, g = 0, b = 0\<rparr>] ! 0) \<lparr>r = 0, g = 255, b = 0\<rparr>"
  by (simp add: setHSV_256 setRGB4_def setRGB_def within1_def)

text \<open>
  C8. One call of \<open>setHSV\<close> is one call of the bounds-checked \<open>setRGB\<close> with some
  triplet. It keeps the length of the buffer, changes no slot other than \<open>pos\<close>, and for
  \<open>pos\<close> out of range changes nothing.
\<close>

theorem setHSV_frame:
  "(\<exists>x. setHSV LEN pos h s v data = setRGB LEN pos x data) \<and>
   length (setHSV LEN pos h s v data) = length data \<and>
   (\<forall>i. i \<noteq> unat pos \<longrightarrow> setHSV LEN pos h s v data ! i = data ! i) \<and>
   (\<not> pos < LEN \<longrightarrow> setHSV LEN pos h s v data = data)"
proof -
  obtain x where x: "setHSV LEN pos h s v data = setRGB LEN pos x data"
    using setHSV_is_setRGB by blast
  show ?thesis
    unfolding x by (auto simp add: setRGB_def)
qed

text \<open>Slot 1 of three is written; then a write at position 7 of the same three.\<close>

theorem setHSV_frame_witness:
  "length (setHSV 3 1 700 100 200 [\<lparr>r = 1, g = 1, b = 1\<rparr>, \<lparr>r = 2, g = 2, b = 2\<rparr>, \<lparr>r = 3, g = 3, b = 3\<rparr>]) = 3 \<and>
   setHSV 3 1 700 100 200 [\<lparr>r = 1, g = 1, b = 1\<rparr>, \<lparr>r = 2, g = 2, b = 2\<rparr>, \<lparr>r = 3, g = 3, b = 3\<rparr>] ! 0 = \<lparr>r = 1, g = 1, b = 1\<rparr> \<and>
   setHSV 3 1 700 100 200 [\<lparr>r = 1, g = 1, b = 1\<rparr>, \<lparr>r = 2, g = 2, b = 2\<rparr>, \<lparr>r = 3, g = 3, b = 3\<rparr>] ! 2 = \<lparr>r = 3, g = 3, b = 3\<rparr> \<and>
   setHSV 3 7 700 100 200 [\<lparr>r = 1, g = 1, b = 1\<rparr>, \<lparr>r = 2, g = 2, b = 2\<rparr>, \<lparr>r = 3, g = 3, b = 3\<rparr>] = [\<lparr>r = 1, g = 1, b = 1\<rparr>, \<lparr>r = 2, g = 2, b = 2\<rparr>, \<lparr>r = 3, g = 3, b = 3\<rparr>]"
  using setHSV_frame [of 3 1 700 100 200 "[\<lparr>r = 1, g = 1, b = 1\<rparr>, \<lparr>r = 2, g = 2, b = 2\<rparr>, \<lparr>r = 3, g = 3, b = 3\<rparr>]"]
    setHSV_frame [of 3 7 700 100 200 "[\<lparr>r = 1, g = 1, b = 1\<rparr>, \<lparr>r = 2, g = 2, b = 2\<rparr>, \<lparr>r = 3, g = 3, b = 3\<rparr>]"]
  by simp

text \<open>
  C10. The clamp of the sextant to 5 is never taken: for every hue \<open>h\<close>,
  \<open>(h % 1536) >> 8\<close> is not above 5, so the sextant is \<open>(h % 1536) >> 8\<close>, that is
  \<open>(h mod 1536) div 256\<close>, a number in \<open>[0, 5]\<close>.
\<close>

theorem sextant_clamp_unreachable:
  "\<not> (drop_bit 8 (h mod (6 * 256)) > (5 :: 16 word)) \<and>
   sextant h = ucast (drop_bit 8 (h mod (6 * 256))) \<and>
   unat (sextant h) = unat h mod 1536 div 256 \<and>
   unat (sextant h) \<le> 5"
proof -
  have never: "\<not> (drop_bit 8 (h mod (6 * 256)) > (5 :: 16 word))"
    using drop_mod_le5 [of h] by (simp only: not_less)
  have val: "unat (sextant h) = unat h mod 1536 div 256"
    by (rule unat_sextant)
  have "unat h mod 1536 div 256 \<le> 5"
    by simp
  with never val sextant_eq [of h] show ?thesis
    by (simp only: simp_thms)
qed

subsection \<open>Transmission\<close>

text \<open>
  C1. For a buffer of length 3 whose every slot holds \<open>(255, 0, 0)\<close>, \<open>flush\<close> under the
  order RGB emits, after the reset, for each of the three pixels in turn the bytes
  \<open>0xFF\<close>, \<open>0x00\<close>, \<open>0x00\<close>, each from bit 7 down to bit 0: eight long pulses, then
  eight short ones, then eight short ones. The pin is one of the eight lines of port B,
  and a pulse raises that line.
\<close>

theorem flush_RGB_red:
  "PIN < 8 \<Longrightarrow>
   out (flush PIN 3 RGB (replicate 3 \<lparr>r = 255, g = 0, b = 0\<rparr>) st) =
     out st @ reset_wave @
       concat (replicate 3 (byte_wave PIN 0xFF @ byte_wave PIN 0x00 @ byte_wave PIN 0x00)) \<and>
   byte_wave PIN 0xFF = [Cli] @ concat (replicate 8 (long_pulse PIN)) @ [Sei] \<and>
   byte_wave PIN 0x00 = [Cli] @ concat (replicate 8 (short_pulse PIN)) @ [Sei] \<and>
   bit (line_high PIN) (unat PIN)"
proof -
  assume pin: "PIN < 8"
  then have "PIN < 16"
    by (simp add: word_less_nat_alt)
  then have "out (flush PIN 3 RGB (replicate 3 \<lparr>r = 255, g = 0, b = 0\<rparr>) st) =
     out st @ reset_wave @
       concat (replicate 3 (byte_wave PIN 0xFF @ byte_wave PIN 0x00 @ byte_wave PIN 0x00))"
    by (simp add: flush_RGB map_replicate)
  moreover have "byte_wave PIN 0xFF = [Cli] @ concat (replicate 8 (long_pulse PIN)) @ [Sei]"
    by (simp add: byte_wave_def pulse_def replicate_8)
  moreover have "byte_wave PIN 0x00 = [Cli] @ concat (replicate 8 (short_pulse PIN)) @ [Sei]"
    by (simp add: byte_wave_def pulse_def replicate_8)
  moreover have "bit (line_high PIN) (unat PIN)"
    using pin by (simp add: line_high_def bit_simps word_less_nat_alt)
  ultimately show ?thesis
    by (simp only: simp_thms)
qed

text \<open>Pin 1, the default of the template, from a port whose upper four lines are high.\<close>

theorem flush_RGB_red_witness:
  "out (flush 1 3 RGB (replicate 3 \<lparr>r = 255, g = 0, b = 0\<rparr>) \<lparr>PORTB = 0xF0, interrupts = True, out = []\<rparr>) =
     reset_wave @ concat (replicate 3 (byte_wave 1 0xFF @ byte_wave 1 0x00 @ byte_wave 1 0x00)) \<and>
   byte_wave 1 0xFF = [Cli] @ concat (replicate 8 (long_pulse 1)) @ [Sei] \<and>
   byte_wave 1 0x00 = [Cli] @ concat (replicate 8 (short_pulse 1)) @ [Sei] \<and>
   long_pulse 1 = [Port 2, Nop 2, Port 2, Nop 5, Port 0] \<and>
   short_pulse 1 = [Port 2, Nop 2, Port 0, Nop 5, Port 0]"
  using flush_RGB_red [of 1 "\<lparr>PORTB = 0xF0, interrupts = True, out = []\<rparr>"]
  by (simp add: long_pulse_def short_pulse_def line_high_def)

text \<open>
  C2. For every buffer, what \<open>flush\<close> emits under GRB differs from what it emits under
  RGB only in the places of the red and the green byte of each pixel: RGB sends red,
  green, blue and GRB sends green, red, blue, the blue byte third in both, every byte from
  bit 7 down to bit 0 in both. So \<open>flush\<close> under GRB is \<open>flush\<close> under RGB of the buffer
  with red and green exchanged in every pixel.
\<close>

theorem flush_GRB_vs_RGB:
  "PIN < 16 \<Longrightarrow> length data = unat LEN \<Longrightarrow>
   out (flush PIN LEN RGB data st) =
     out st @ reset_wave @
       concat (map (\<lambda>p. byte_wave PIN (r p) @ byte_wave PIN (g p) @ byte_wave PIN (b p)) data) \<and>
   out (flush PIN LEN GRB data st) =
     out st @ reset_wave @
       concat (map (\<lambda>p. byte_wave PIN (g p) @ byte_wave PIN (r p) @ byte_wave PIN (b p)) data) \<and>
   flush PIN LEN GRB data st = flush PIN LEN RGB (map swap_rg data) st"
  by (simp add: flush_RGB flush_GRB swap_rg_def comp_def)

text \<open>Two pixels on pin 1.\<close>

theorem flush_GRB_vs_RGB_witness:
  "out (flush 1 2 RGB [\<lparr>r = 1, g = 2, b = 3\<rparr>, \<lparr>r = 4, g = 5, b = 6\<rparr>] \<lparr>PORTB = 0xF0, interrupts = True, out = []\<rparr>) =
     reset_wave @ byte_wave 1 1 @ byte_wave 1 2 @ byte_wave 1 3 @ byte_wave 1 4 @ byte_wave 1 5 @ byte_wave 1 6 \<and>
   out (flush 1 2 GRB [\<lparr>r = 1, g = 2, b = 3\<rparr>, \<lparr>r = 4, g = 5, b = 6\<rparr>] \<lparr>PORTB = 0xF0, interrupts = True, out = []\<rparr>) =
     reset_wave @ byte_wave 1 2 @ byte_wave 1 1 @ byte_wave 1 3 @ byte_wave 1 5 @ byte_wave 1 4 @ byte_wave 1 6 \<and>
   flush 1 2 GRB [\<lparr>r = 1, g = 2, b = 3\<rparr>, \<lparr>r = 4, g = 5, b = 6\<rparr>] \<lparr>PORTB = 0xF0, interrupts = True, out = []\<rparr> =
     flush 1 2 RGB [\<lparr>r = 2, g = 1, b = 3\<rparr>, \<lparr>r = 5, g = 4, b = 6\<rparr>] \<lparr>PORTB = 0xF0, interrupts = True, out = []\<rparr>"
proof -
  have pin: "(1 :: byte) < 16" and len: "length [\<lparr>r = 1, g = 2, b = 3\<rparr>, \<lparr>r = 4, g = 5, b = 6\<rparr>] = unat (2 :: byte)"
    by simp_all
  note inst = flush_GRB_vs_RGB [of 1 "[\<lparr>r = 1, g = 2, b = 3\<rparr>, \<lparr>r = 4, g = 5, b = 6\<rparr>]" 2 "\<lparr>PORTB = 0xF0, interrupts = True, out = []\<rparr>", OF pin len]
  have "out (flush 1 2 RGB [\<lparr>r = 1, g = 2, b = 3\<rparr>, \<lparr>r = 4, g = 5, b = 6\<rparr>] \<lparr>PORTB = 0xF0, interrupts = True, out = []\<rparr>) =
     reset_wave @ byte_wave 1 1 @ byte_wave 1 2 @ byte_wave 1 3 @ byte_wave 1 4 @ byte_wave 1 5 @ byte_wave 1 6"
    using inst [THEN conjunct1] by simp
  moreover have "out (flush 1 2 GRB [\<lparr>r = 1, g = 2, b = 3\<rparr>, \<lparr>r = 4, g = 5, b = 6\<rparr>] \<lparr>PORTB = 0xF0, interrupts = True, out = []\<rparr>) =
     reset_wave @ byte_wave 1 2 @ byte_wave 1 1 @ byte_wave 1 3 @ byte_wave 1 5 @ byte_wave 1 4 @ byte_wave 1 6"
    using inst [THEN conjunct2, THEN conjunct1] by simp
  moreover have "flush 1 2 GRB [\<lparr>r = 1, g = 2, b = 3\<rparr>, \<lparr>r = 4, g = 5, b = 6\<rparr>] \<lparr>PORTB = 0xF0, interrupts = True, out = []\<rparr> =
     flush 1 2 RGB [\<lparr>r = 2, g = 1, b = 3\<rparr>, \<lparr>r = 5, g = 4, b = 6\<rparr>] \<lparr>PORTB = 0xF0, interrupts = True, out = []\<rparr>"
    using inst [THEN conjunct2, THEN conjunct2] by (simp add: swap_rg_def)
  ultimately show ?thesis
    by (simp only: simp_thms)
qed

text \<open>
  C9. Whatever the bit sent, \<open>sendBit\<close> leaves the whole register \<open>PORTB\<close> at 0, not
  only the line of its pin: the mask \<open>!_BV(PIN)\<close> is the logical negation of a number
  that is not 0, hence 0. So \<open>flush\<close> leaves every line of port B low. The pin is any
  for which the shift \<open>1 << PIN\<close> stays inside the 16 bits of an \<open>int\<close>.
\<close>

theorem sendBit_clears_PORTB:
  "PIN < 16 \<Longrightarrow>
   lnot (BV PIN) = 0 \<and> PORTB (sendBit PIN v st) = 0 \<and> PORTB (flush PIN LEN ORDER data st) = 0"
  by (simp add: lnot_BV sendBit_eq flush_def PORTB_flush_loop write_PORTB_def delayMicroseconds_def)

text \<open>Pin 1, from a port whose upper four lines are high: they are low afterwards.\<close>

theorem sendBit_clears_PORTB_witness:
  "lnot (BV 1) = 0 \<and>
   PORTB (sendBit 1 True \<lparr>PORTB = 0xF0, interrupts = True, out = []\<rparr>) = 0 \<and>
   PORTB (flush 1 1 RGB [\<lparr>r = 9, g = 9, b = 9\<rparr>] \<lparr>PORTB = 0xF0, interrupts = True, out = []\<rparr>) = 0"
  using sendBit_clears_PORTB [of 1 True "\<lparr>PORTB = 0xF0, interrupts = True, out = []\<rparr>" 1 RGB "[\<lparr>r = 9, g = 9, b = 9\<rparr>]"]
  by simp

end
